theory Spec2Isabelle
  imports Main "HOL-Library.Char_ord" "HOL-Library.List_Lexorder" "HOL-Library.Multiset"
begin

section \<open>Data model\<close>

text \<open>
  The source declares the closed unions \<^verbatim>\<open>Category\<close> and \<^verbatim>\<open>Status\<close> from two constant
  arrays, and the object types \<^verbatim>\<open>NextStep\<close> and \<^verbatim>\<open>Task\<close>. An optional property
  (\<^verbatim>\<open>dueDate?: string\<close>) is an \<open>option\<close>: \<open>None\<close> stands for a property that is missing
  or \<^verbatim>\<open>undefined\<close>. Strings are lists of characters; the order on strings is the
  lexicographic order on character codes, which is what JavaScript's relational
  operators compute on strings.
\<close>

datatype Category = Dealership | Family | Business | Spiritual | Personal

datatype Status = Active | Pending | Completed

definition CATEGORIES :: "Category list" where
  "CATEGORIES = [Dealership, Family, Business, Spiritual, Personal]"

definition STATUSES :: "Status list" where
  "STATUSES = [Active, Pending, Completed]"

record NextStep =
  ns_id :: string
  ns_text :: string
  ns_dueDate :: "string option"
  ns_done :: "bool option"

record Task =
  task_id :: string
  title :: string
  description :: "string option"
  category :: Category
  status :: Status
  dueDate :: "string option"
  createdAt :: string
  nextSteps :: "NextStep list"

subsection \<open>JavaScript primitives the program relies on\<close>

text \<open>
  \<^verbatim>\<open>!!s\<close> on an optional string: \<^verbatim>\<open>undefined\<close> and the empty string are falsy.
\<close>

fun truthy :: "string option \<Rightarrow> bool" where
  "truthy None = False"
| "truthy (Some s) = (s \<noteq> [])"

text \<open>\<^verbatim>\<open>s || dflt\<close> on an optional string.\<close>

fun orElse :: "string option \<Rightarrow> string \<Rightarrow> string" where
  "orElse None dflt = dflt"
| "orElse (Some s) dflt = (if s = [] then dflt else s)"

text \<open>
  \<^verbatim>\<open>a.localeCompare(b)\<close>: negative, zero or positive. The program applies it to ISO date
  strings and the sentinel \<^verbatim>\<open>"9999"\<close> (ASCII digits and hyphens), to ISO time stamps of
  one fixed layout, and to the five category names. On these strings the collation
  order is the order of the character codes, and that is the order modelled here; how a
  locale collates other strings is outside the model.
\<close>

definition localeCompare :: "string \<Rightarrow> string \<Rightarrow> int" where
  "localeCompare a b = (if a < b then - 1 else if a = b then 0 else 1)"

text \<open>
  \<^verbatim>\<open>xs.sort(cmp)\<close>: the language standard requires a stable sort. The model inserts
  each element, from the right, in front of the first element that does not compare
  smaller, so elements that compare equal keep their relative order.
\<close>

fun insertWith :: "('a \<Rightarrow> 'a \<Rightarrow> int) \<Rightarrow> 'a \<Rightarrow> 'a list \<Rightarrow> 'a list" where
  "insertWith cmp x [] = [x]"
| "insertWith cmp x (y # ys) =
     (if cmp x y \<le> 0 then x # y # ys else y # insertWith cmp x ys)"

fun sortWith :: "('a \<Rightarrow> 'a \<Rightarrow> int) \<Rightarrow> 'a list \<Rightarrow> 'a list" where
  "sortWith cmp [] = []"
| "sortWith cmp (x # xs) = insertWith cmp x (sortWith cmp xs)"

section \<open>Nearest next step\<close>





section \<open>Application state and the task store\<close>

datatype StatusFilter = All | Only Status

datatype SortKey = ByDueDate | ByCreatedAt | ByCategory

datatype View = Grid | Table | Calendar

datatype CalendarMode = Month | Week | Day

text \<open>
  The \<^verbatim>\<open>useState\<close> cells of the main component. A \<^verbatim>\<open>Date\<close> is its time value, the
  milliseconds since the epoch.
\<close>

record AppState =
  tasks :: "Task list"
  query :: string
  activeCategories :: "Category list"
  statusFilter :: StatusFilter
  sortKey :: SortKey
  view :: View
  showModal :: bool
  editing :: "Task option"
  calendarCursor :: int
  calendarMode :: CalendarMode

definition resetForm :: "AppState \<Rightarrow> AppState" where
  "resetForm st = st\<lparr>showModal := False, editing := None\<rparr>"

definition upsertTask :: "Task \<Rightarrow> AppState \<Rightarrow> AppState" where
  "upsertTask task st =
     resetForm (st\<lparr>tasks :=
       (let prev = tasks st;
            exists = list_ex (\<lambda>p. task_id p = task_id task) prev
        in if exists then map (\<lambda>p. if task_id p = task_id task then task else p) prev
           else task # prev)\<rparr>)"

definition removeTask :: "string \<Rightarrow> AppState \<Rightarrow> AppState" where
  "removeTask i st = st\<lparr>tasks := filter (\<lambda>p. task_id p \<noteq> i) (tasks st)\<rparr>"


section \<open>Sorting, grouping and metrics\<close>

text \<open>The string that a category is at run time.\<close>

definition categoryName :: "Category \<Rightarrow> string" where
  "categoryName c = (case c of Dealership \<Rightarrow> ''Dealership'' | Family \<Rightarrow> ''Family''
     | Business \<Rightarrow> ''Business'' | Spiritual \<Rightarrow> ''Spiritual'' | Personal \<Rightarrow> ''Personal'')"

text \<open>The key that the due-date comparator reads off a task, \<^verbatim>\<open>t.dueDate || "9999"\<close>.\<close>

definition dueDateKey :: "Task \<Rightarrow> string" where
  "dueDateKey t = orElse (dueDate t) ''9999''"

text \<open>The table \<^verbatim>\<open>sorter\<close> of comparators, one for each sort key.\<close>

fun sorter :: "SortKey \<Rightarrow> Task \<Rightarrow> Task \<Rightarrow> int" where
  "sorter ByDueDate a b = localeCompare (dueDateKey a) (dueDateKey b)"
| "sorter ByCreatedAt a b =
     localeCompare (orElse (Some (createdAt b)) []) (orElse (Some (createdAt a)) [])"
| "sorter ByCategory a b = localeCompare (categoryName (category a)) (categoryName (category b))"

text \<open>The last line of the \<^verbatim>\<open>filtered\<close> memo, \<^verbatim>\<open>[...list].sort(sorter[sortKey])\<close>, as a value.\<close>

definition sortTasks :: "SortKey \<Rightarrow> Task list \<Rightarrow> Task list" where
  "sortTasks k list = sortWith (sorter k) list"





text \<open>
  The string methods \<^verbatim>\<open>trim\<close>, \<^verbatim>\<open>toLowerCase\<close> and \<^verbatim>\<open>includes\<close>, for the characters
  of ASCII.
\<close>

definition isSpace :: "char \<Rightarrow> bool" where
  "isSpace c = (c \<in> set [CHR '' '', CHR 0x09, CHR 0x0A, CHR 0x0B, CHR 0x0C, CHR 0x0D])"

definition trim :: "string \<Rightarrow> string" where
  "trim s = rev (dropWhile isSpace (rev (dropWhile isSpace s)))"

definition lowerChar :: "char \<Rightarrow> char" where
  "lowerChar c = (let n = (of_char c :: nat) in if 65 \<le> n \<and> n \<le> 90 then char_of (n + 32) else c)"

definition toLowerCase :: "string \<Rightarrow> string" where
  "toLowerCase s = map lowerChar s"

fun includesStr :: "string \<Rightarrow> string \<Rightarrow> bool" where
  "includesStr [] q = (q = [])"
| "includesStr (c # cs) q = (take (length q) (c # cs) = q \<or> includesStr cs q)"

text \<open>The \<^verbatim>\<open>filtered\<close> memo: filter by category, status and search text, then sort.\<close>

definition filtered :: "AppState \<Rightarrow> Task list" where
  "filtered st =
     (let q = toLowerCase (trim (query st));
          list0 = filter (\<lambda>t. category t \<in> set (activeCategories st)) (tasks st);
          list1 = (if statusFilter st \<noteq> All
                   then filter (\<lambda>t. Only (status t) = statusFilter st) list0 else list0);
          list2 = (if q \<noteq> []
                   then filter (\<lambda>t. includesStr (toLowerCase (title t)) q
                                   \<or> includesStr (toLowerCase (orElse (description t) [])) q
                                   \<or> list_ex (\<lambda>n. includesStr (toLowerCase (ns_text n)) q) (nextSteps t))
                          list1
                   else list1)
      in sortTasks (sortKey st) list2)"

text \<open>
  The \<^verbatim>\<open>byCategory\<close> memo: a record with one array for each category, all empty at
  first; \<^verbatim>\<open>forEach\<close> pushes every task of the filtered list onto the array of its category.
\<close>

definition pushTask :: "(Category \<Rightarrow> Task list) \<Rightarrow> Task \<Rightarrow> (Category \<Rightarrow> Task list)" where
  "pushTask m t = m(category t := m (category t) @ [t])"

definition groupByCategory :: "Task list \<Rightarrow> (Category \<Rightarrow> Task list)" where
  "groupByCategory list = foldl pushTask (\<lambda>c. []) list"

definition byCategory :: "AppState \<Rightarrow> (Category \<Rightarrow> Task list)" where
  "byCategory st = groupByCategory (filtered st)"

section \<open>Dates\<close>

text \<open>
  The host supplies what the program reads from its environment: the clock (the time
  value of \<^verbatim>\<open>new Date()\<close>, milliseconds since the epoch) and the local time zone, as
  the number of milliseconds that local time is ahead of UTC. The offset is taken as
  fixed, so daylight-saving changes are outside the model. One clock reading serves a
  whole call.
\<close>

record Host =
  now :: int
  utcOffset :: int

definition msPerDay :: int where
  "msPerDay = 86400000"

text \<open>
  Day numbers count days since 1970-01-01. The two conversions between a day number
  and a proleptic Gregorian date (year, month 1 to 12, day of month) are the ones every
  \<^verbatim>\<open>Date\<close> implementation computes; division rounds down.
\<close>

definition daysFromCivil :: "int \<Rightarrow> int \<Rightarrow> int \<Rightarrow> int" where
  "daysFromCivil y m d =
     (let y' = (if m \<le> 2 then y - 1 else y);
          era = y' div 400;
          yoe = y' - era * 400;
          doy = (153 * (if m > 2 then m - 3 else m + 9) + 2) div 5 + d - 1;
          doe = yoe * 365 + yoe div 4 - yoe div 100 + doy
      in era * 146097 + doe - 719468)"

definition civilFromDays :: "int \<Rightarrow> int \<times> int \<times> int" where
  "civilFromDays z =
     (let z' = z + 719468;
          era = z' div 146097;
          doe = z' - era * 146097;
          yoe = (doe - doe div 1460 + doe div 36524 - doe div 146096) div 365;
          doy = doe - (365 * yoe + yoe div 4 - yoe div 100);
          mp = (5 * doy + 2) div 153;
          d = doy - (153 * mp + 2) div 5 + 1;
          m = (if mp < 10 then mp + 3 else mp - 9)
      in (if m \<le> 2 then yoe + era * 400 + 1 else yoe + era * 400, m, d))"

definition daysInMonth :: "int \<Rightarrow> int \<Rightarrow> int" where
  "daysInMonth y m =
     (if m = 2 then (if y mod 4 = 0 \<and> (y mod 100 \<noteq> 0 \<or> y mod 400 = 0) then 29 else 28)
      else if m = 4 \<or> m = 6 \<or> m = 9 \<or> m = 11 then 30 else 31)"

text \<open>The local calendar day of a time value, and the accessors that read it.\<close>

definition localDay :: "Host \<Rightarrow> int \<Rightarrow> int" where
  "localDay h t = (t + utcOffset h) div msPerDay"

definition getFullYear :: "Host \<Rightarrow> int \<Rightarrow> int" where
  "getFullYear h t = fst (civilFromDays (localDay h t))"

text \<open>\<^verbatim>\<open>getMonth\<close> counts months from 0.\<close>

definition getMonth :: "Host \<Rightarrow> int \<Rightarrow> int" where
  "getMonth h t = fst (snd (civilFromDays (localDay h t))) - 1"

text \<open>\<^verbatim>\<open>getDay\<close>: the day of the week, Sunday is 0; 1970-01-01 was a Thursday.\<close>

definition getDay :: "Host \<Rightarrow> int \<Rightarrow> int" where
  "getDay h t = (localDay h t + 4) mod 7"

text \<open>
  \<^verbatim>\<open>new Date(year, month, day)\<close>: local midnight of that date; a month outside 0 to 11
  carries into the year, and a year from 0 to 99 means 1900 plus that year.
\<close>

definition newDateYMD :: "Host \<Rightarrow> int \<Rightarrow> int \<Rightarrow> int \<Rightarrow> int" where
  "newDateYMD h y m d =
     (let y0 = (if 0 \<le> y \<and> y \<le> 99 then 1900 + y else y);
          ym = y0 + m div 12;
          mn = m mod 12
      in (daysFromCivil ym (mn + 1) 1 + d - 1) * msPerDay - utcOffset h)"

text \<open>
  \<^verbatim>\<open>new Date(d.toDateString())\<close>: the date string drops the time of day and is read back
  as local time, which gives local midnight of the local day of \<open>t\<close>.
\<close>

definition startOfLocalDay :: "Host \<Rightarrow> int \<Rightarrow> int" where
  "startOfLocalDay h t = localDay h t * msPerDay - utcOffset h"

text \<open>
  \<^verbatim>\<open>d.setDate(d.getDate() + n)\<close>: the local calendar date moves by \<open>n\<close> days and the
  local time of day stays, which with a fixed offset adds \<open>n\<close> times the length of a day.
\<close>

definition plusDays :: "int \<Rightarrow> int \<Rightarrow> int" where
  "plusDays t n = t + n * msPerDay"

text \<open>
  \<^verbatim>\<open>new Date(s)\<close> for a date-only string \<^verbatim>\<open>YYYY-MM-DD\<close>: the standard reads this form as
  midnight UTC of that date. The result here is the day number; any other string gives
  \<open>None\<close>, the invalid date, with which every comparison is false.
\<close>

definition digitVal :: "char \<Rightarrow> int option" where
  "digitVal c = (let n = (of_char c :: nat) in if 48 \<le> n \<and> n \<le> 57 then Some (int n - 48) else None)"

fun digitsVal :: "string \<Rightarrow> int option" where
  "digitsVal [] = Some 0"
| "digitsVal (c # cs) =
     (case (digitVal c, digitsVal cs) of
        (Some v, Some r) \<Rightarrow> Some (v * 10 ^ length cs + r)
      | _ \<Rightarrow> None)"

definition parseISODate :: "string \<Rightarrow> int option" where
  "parseISODate s =
     (if length s = 10 \<and> s ! 4 = CHR ''-'' \<and> s ! 7 = CHR ''-'' then
        (case (digitsVal (take 4 s), digitsVal (take 2 (drop 5 s)), digitsVal (drop 8 s)) of
           (Some y, Some m, Some d) \<Rightarrow>
             if 1 \<le> m \<and> m \<le> 12 \<and> 1 \<le> d \<and> d \<le> daysInMonth y m
             then Some (daysFromCivil y m d) else None
         | _ \<Rightarrow> None)
      else None)"

text \<open>
  \<^verbatim>\<open>d.toISOString().slice(0, 10)\<close>: the first ten characters of the UTC time stamp. Years
  0 to 9999 print with four digits; other years print with a sign and six digits, and
  the slice then ends after the month.
\<close>

definition digitChar :: "int \<Rightarrow> char" where
  "digitChar n = ''0123456789'' ! nat (n mod 10)"

fun padDigits :: "nat \<Rightarrow> int \<Rightarrow> string" where
  "padDigits 0 n = []"
| "padDigits (Suc w) n = padDigits w (n div 10) @ [digitChar n]"

definition isoDateOfDay :: "int \<Rightarrow> string" where
  "isoDateOfDay z =
     (case civilFromDays z of (y, m, d) \<Rightarrow>
        if 0 \<le> y \<and> y \<le> 9999 then padDigits 4 y @ ''-'' @ padDigits 2 m @ ''-'' @ padDigits 2 d
        else (if y < 0 then ''-'' else ''+'') @ padDigits 6 (abs y) @ ''-'' @ padDigits 2 m)"

definition toISODate :: "int \<Rightarrow> string" where
  "toISODate t = isoDateOfDay (t div msPerDay)"

subsection \<open>Date helpers of the program\<close>

definition isOverdue :: "Host \<Rightarrow> string option \<Rightarrow> bool" where
  "isOverdue h dateISO =
     (if \<not> truthy dateISO then False
      else case parseISODate (orElse dateISO []) of
             None \<Rightarrow> False
           | Some day \<Rightarrow> day * msPerDay + 86399000 - utcOffset h < now h)"

definition isDueWithinDays :: "Host \<Rightarrow> string option \<Rightarrow> int \<Rightarrow> bool" where
  "isDueWithinDays h dateISO days =
     (if \<not> truthy dateISO then False
      else let today = now h;
               future = plusDays (now h) days
           in case parseISODate (orElse dateISO []) of
                None \<Rightarrow> False
              | Some day \<Rightarrow> startOfLocalDay h today \<le> day * msPerDay \<and> day * msPerDay \<le> future)"

definition startOfMonth :: "Host \<Rightarrow> int \<Rightarrow> int" where
  "startOfMonth h date = newDateYMD h (getFullYear h date) (getMonth h date) 1"

definition addDays :: "int \<Rightarrow> int \<Rightarrow> int" where
  "addDays date n = plusDays date n"

definition startOfWeek :: "Host \<Rightarrow> int \<Rightarrow> int \<Rightarrow> int" where
  "startOfWeek h date weekStartsOn =
     (let diff = (getDay h date + 7 - weekStartsOn) mod 7 in addDays date (- diff))"

section \<open>Metrics and calendar\<close>

record Metrics =
  total :: nat
  overdue :: nat
  dueSoon :: nat
  active :: nat
  counts :: "Category \<Rightarrow> nat option"

definition metrics :: "Host \<Rightarrow> AppState \<Rightarrow> Metrics" where
  "metrics h st =
     \<lparr> total = length (tasks st),
       overdue = length (filter (\<lambda>t. isOverdue h (dueDate t)) (tasks st)),
       dueSoon = length (filter (\<lambda>t. isDueWithinDays h (dueDate t) 3) (tasks st)),
       active = length (filter (\<lambda>t. status t \<noteq> Completed) (tasks st)),
       counts = foldl (\<lambda>acc c. acc(c \<mapsto> length (filter (\<lambda>t. category t = c) (tasks st))))
                  Map.empty CATEGORIES \<rparr>"

text \<open>The count shown on a category chip, \<^verbatim>\<open>metrics.counts[c] || 0\<close>.\<close>

definition chipCount :: "Metrics \<Rightarrow> Category \<Rightarrow> nat" where
  "chipCount m c = (case counts m c of None \<Rightarrow> 0 | Some n \<Rightarrow> n)"

text \<open>The \<^verbatim>\<open>calendarMatrix\<close> memo: the loop pushes 42 days, starting at \<^verbatim>\<open>gridStart\<close>.\<close>

definition calendarMatrix :: "Host \<Rightarrow> AppState \<Rightarrow> int list" where
  "calendarMatrix h st =
     (let first = startOfMonth h (calendarCursor st);
          gridStart = startOfWeek h first 0
      in map (\<lambda>i. addDays gridStart (int i)) [0..<42])"

definition tasksOn :: "AppState \<Rightarrow> int \<Rightarrow> Task list" where
  "tasksOn st date =
     (let iso = toISODate date
      in filter (\<lambda>t. dueDate t = Some iso \<or> list_ex (\<lambda>n. ns_dueDate n = Some iso) (nextSteps t))
           (tasks st))"


section \<open>Export and import as JSON\<close>

text \<open>
  The export writes \<^verbatim>\<open>JSON.stringify(tasks, null, 2)\<close> to a file and the import reads a
  file back with \<^verbatim>\<open>JSON.parse\<close>. Both are modelled on the text: the values that occur
  are null, booleans, strings, arrays and objects (no field of a task is a number, and
  numbers are not modelled). An object is the list of its properties in creation order.
  A character of the model is one byte, so of the 16-bit code units of a JavaScript
  string the model covers those below 256.
\<close>

datatype json = JNull | JBool bool | JString string | JArray "json list"
  | JObject "(string \<times> json) list"

abbreviation (input) DQ :: char where "DQ \<equiv> CHR 0x22"
abbreviation (input) BS :: char where "BS \<equiv> CHR 0x5C"
abbreviation (input) LF :: char where "LF \<equiv> CHR 0x0A"

text \<open>
  The serialisation of a string: quote and backslash are escaped, the control characters
  have their short escapes or the form \<^verbatim>\<open>\u00XX\<close>, and every other character stands
  for itself.
\<close>

definition hexDigit :: "nat \<Rightarrow> char" where
  "hexDigit n = ''0123456789abcdef'' ! n"

definition quoteChar :: "char \<Rightarrow> string" where
  "quoteChar c =
     (if c = DQ then [BS, DQ]
      else if c = BS then [BS, BS]
      else if c = CHR 0x08 then [BS, CHR ''b'']
      else if c = CHR 0x0C then [BS, CHR ''f'']
      else if c = CHR 0x0A then [BS, CHR ''n'']
      else if c = CHR 0x0D then [BS, CHR ''r'']
      else if c = CHR 0x09 then [BS, CHR ''t'']
      else if (of_char c :: nat) < 32
        then [BS, CHR ''u'', CHR ''0'', CHR ''0'', hexDigit (of_char c div 16), hexDigit (of_char c mod 16)]
      else [c])"

definition quoteJSONString :: "string \<Rightarrow> string" where
  "quoteJSONString s = DQ # concat (map quoteChar s) @ [DQ]"

text \<open>
  The serialisation of a value with a gap of two spaces; \<open>ind\<close> is the current
  indentation. An empty array or object has no line break inside; otherwise every
  element or property starts on a new line, indented by one more gap.
\<close>

fun ser :: "string \<Rightarrow> json \<Rightarrow> string"
  and serElems :: "string \<Rightarrow> json list \<Rightarrow> string"
  and serMembers :: "string \<Rightarrow> (string \<times> json) list \<Rightarrow> string" where
  "ser ind JNull = ''null''"
| "ser ind (JBool b) = (if b then ''true'' else ''false'')"
| "ser ind (JString s) = quoteJSONString s"
| "ser ind (JArray []) = ''[]''"
| "ser ind (JArray (x # xs)) =
     ''['' @ [LF] @ (ind @ ''  '') @ serElems (ind @ ''  '') (x # xs) @ [LF] @ ind @ '']''"
| "ser ind (JObject []) = ''{}''"
| "ser ind (JObject (m # ms)) =
     ''{'' @ [LF] @ (ind @ ''  '') @ serMembers (ind @ ''  '') (m # ms) @ [LF] @ ind @ ''}''"
| "serElems ind [] = []"
| "serElems ind [x] = ser ind x"
| "serElems ind (x # y # r) = ser ind x @ '','' @ [LF] @ ind @ serElems ind (y # r)"
| "serMembers ind [] = []"
| "serMembers ind [(k, v)] = quoteJSONString k @ '': '' @ ser ind v"
| "serMembers ind ((k, v) # m # r) =
     quoteJSONString k @ '': '' @ ser ind v @ '','' @ [LF] @ ind @ serMembers ind (m # r)"












subsection \<open>Tasks as JSON values\<close>
















section \<open>Example data\<close>

definition mkStep :: "string \<Rightarrow> string \<Rightarrow> string option \<Rightarrow> NextStep" where
  "mkStep i txt d = \<lparr>ns_id = i, ns_text = txt, ns_dueDate = d, ns_done = None\<rparr>"

definition mkTask :: "string \<Rightarrow> Category \<Rightarrow> Status \<Rightarrow> string option \<Rightarrow> NextStep list \<Rightarrow> Task" where
  "mkTask i c s d ns =
     \<lparr>task_id = i, title = ''Task '' @ i, description = None, category = c, status = s,
      dueDate = d, createdAt = ''2024-05-01T08:00:00.000Z'', nextSteps = ns\<rparr>"

definition exampleStore :: AppState where
  "exampleStore =
     \<lparr>tasks = [mkTask ''t1'' Dealership Active (Some ''2024-06-03'') [],
               mkTask ''t2'' Family Pending None [mkStep ''s1'' ''Call'' (Some ''2024-06-01'')],
               mkTask ''t3'' Business Completed (Some ''2024-06-01'') []],
      query = [], activeCategories = CATEGORIES, statusFilter = All, sortKey = ByDueDate,
      view = Grid, showModal = False, editing = None, calendarCursor = 1717236000000,
      calendarMode = Month\<rparr>"

definition lateTask :: Task where
  "lateTask = mkTask ''late'' Personal Active (Some ''9999-01-01'') []"



text \<open>
  Two hosts on 2024-06-01 (day number 19875, a Saturday): one five hours behind UTC at
  local noon, one an hour ahead of UTC at ten in the morning, local time.
\<close>

definition hostWest :: Host where
  "hostWest = \<lparr>now = 1717261200000, utcOffset = - 18000000\<rparr>"

definition hostEast :: Host where
  "hostEast = \<lparr>now = 1717232400000, utcOffset = 3600000\<rparr>"


section \<open>Properties of the nearest next step\<close>

subsection \<open>The sort with a comparator on keys\<close>


















section \<open>Properties of the task store\<close>

lemma tasks_upsertTask:
  "tasks (upsertTask t st) =
     (if \<exists>p\<in>set (tasks st). task_id p = task_id t
      then map (\<lambda>p. if task_id p = task_id t then t else p) (tasks st)
      else t # tasks st)"
  by (simp add: upsertTask_def resetForm_def list_ex_iff)

lemma map_replace_distinct:
  assumes "distinct (map f xs)" and "i < length xs" and "f (xs ! i) = k"
  shows "map (\<lambda>p. if f p = k then t else p) xs = xs[i := t]"
proof (rule nth_equalityI)
  show "length (map (\<lambda>p. if f p = k then t else p) xs) = length (xs[i := t])" by simp
next
  fix j assume "j < length (map (\<lambda>p. if f p = k then t else p) xs)"
  then have j: "j < length xs" by simp
  show "map (\<lambda>p. if f p = k then t else p) xs ! j = xs[i := t] ! j"
  proof (cases "j = i")
    case True
    then show ?thesis using assms by simp
  next
    case False
    have "f (xs ! j) \<noteq> f (xs ! i)"
      using assms(1,2) j False by (simp add: distinct_conv_nth)
    then show ?thesis using j False assms(3) by simp
  qed
qed

text \<open>
  C7. \<^verbatim>\<open>upsertTask\<close>: when no task of the list has the id of \<open>t\<close>, the new list is \<open>t\<close>
  followed by the old list. When some task has that id, the new list has the same
  length, holds \<open>t\<close> at every position whose task had that id and the old task at every
  other position; with ids unique in the list this is the old list with the one entry
  at its position replaced by \<open>t\<close>.
\<close>

theorem upsert_replaces_or_prepends:
  "(\<not> (\<exists>p\<in>set (tasks st). task_id p = task_id t) \<longrightarrow> tasks (upsertTask t st) = t # tasks st)
   \<and> ((\<exists>p\<in>set (tasks st). task_id p = task_id t) \<longrightarrow>
        length (tasks (upsertTask t st)) = length (tasks st)
        \<and> (\<forall>i<length (tasks st). tasks (upsertTask t st) ! i =
              (if task_id (tasks st ! i) = task_id t then t else tasks st ! i)))
   \<and> (distinct (map task_id (tasks st)) \<longrightarrow>
        (\<forall>i<length (tasks st). task_id (tasks st ! i) = task_id t \<longrightarrow>
              tasks (upsertTask t st) = (tasks st)[i := t]))"
proof (intro conjI impI allI)
  assume "\<not> (\<exists>p\<in>set (tasks st). task_id p = task_id t)"
  then show "tasks (upsertTask t st) = t # tasks st" by (simp add: tasks_upsertTask)
next
  assume "\<exists>p\<in>set (tasks st). task_id p = task_id t"
  then show "length (tasks (upsertTask t st)) = length (tasks st)" by (simp add: tasks_upsertTask)
next
  fix i
  assume "\<exists>p\<in>set (tasks st). task_id p = task_id t" and "i < length (tasks st)"
  then show "tasks (upsertTask t st) ! i =
              (if task_id (tasks st ! i) = task_id t then t else tasks st ! i)"
    by (simp add: tasks_upsertTask)
next
  fix i
  assume d: "distinct (map task_id (tasks st))" and i: "i < length (tasks st)"
    and k: "task_id (tasks st ! i) = task_id t"
  then have "\<exists>p\<in>set (tasks st). task_id p = task_id t" using nth_mem by blast
  then show "tasks (upsertTask t st) = (tasks st)[i := t]"
    using map_replace_distinct [OF d i k] by (simp add: tasks_upsertTask)
qed

theorem upsert_replaces_or_prepends_witness:
  "tasks (upsertTask lateTask exampleStore) = lateTask # tasks exampleStore
   \<and> tasks (upsertTask ((tasks exampleStore ! 1)\<lparr>title := ''Renamed''\<rparr>) exampleStore)
       = (tasks exampleStore)[1 := (tasks exampleStore ! 1)\<lparr>title := ''Renamed''\<rparr>]"
proof -
  let ?t = "(tasks exampleStore ! 1)\<lparr>title := ''Renamed''\<rparr>"
  have a: "\<not> (\<exists>p\<in>set (tasks exampleStore). task_id p = task_id lateTask)"
    by (simp add: exampleStore_def lateTask_def mkTask_def)
  have d: "distinct (map task_id (tasks exampleStore))"
    by (simp add: exampleStore_def mkTask_def)
  have i: "1 < length (tasks exampleStore)" by (simp add: exampleStore_def)
  have k: "task_id (tasks exampleStore ! 1) = task_id ?t" by simp
  from upsert_replaces_or_prepends [of exampleStore lateTask] a
  have "tasks (upsertTask lateTask exampleStore) = lateTask # tasks exampleStore" by blast
  moreover from upsert_replaces_or_prepends [of exampleStore ?t] d i k
  have "tasks (upsertTask ?t exampleStore) = (tasks exampleStore)[1 := ?t]" by blast
  ultimately show ?thesis by (rule conjI)
qed




section \<open>Properties of grouping and metrics\<close>

lemma foldl_pushTask:
  "foldl pushTask m xs c = m c @ filter (\<lambda>t. category t = c) xs"
  by (induction xs arbitrary: m) (simp_all add: pushTask_def)

lemma groupByCategory_filter:
  "groupByCategory xs c = filter (\<lambda>t. category t = c) xs"
  by (simp add: groupByCategory_def foldl_pushTask)

lemma CATEGORIES_all: "set CATEGORIES = UNIV"
proof -
  have "c \<in> set CATEGORIES" for c by (cases c) (simp_all add: CATEGORIES_def)
  then show ?thesis by blast
qed

lemma mset_category_filters:
  "mset (concat (map (\<lambda>c. filter (\<lambda>t. category t = c) xs) CATEGORIES)) = mset xs"
proof (induction xs)
  case Nil
  then show ?case by (simp add: CATEGORIES_def)
next
  case (Cons x xs)
  then show ?case by (cases "category x") (simp_all add: CATEGORIES_def)
qed

lemma length_category_filters:
  "(\<Sum>c\<leftarrow>CATEGORIES. length (filter (\<lambda>t. category t = c) xs)) = length xs"
proof (induction xs)
  case Nil
  then show ?case by (simp add: CATEGORIES_def)
next
  case (Cons x xs)
  then show ?case by (cases "category x") (simp_all add: CATEGORIES_def)
qed

text \<open>
  C8. Grouping a list by category: the bucket of a category holds exactly the tasks of
  that category, in the order they have in the list; buckets of different categories
  are disjoint; together the buckets hold every task of the list; their concatenation
  in the order of \<open>CATEGORIES\<close> has the same elements with the same multiplicities as
  the list; and there are exactly five categories, hence five buckets. The memo
  \<open>byCategory\<close> applies this grouping to the filtered and sorted list.
\<close>

theorem grouping_partitions_by_category:
  "(\<forall>c. groupByCategory list c = filter (\<lambda>t. category t = c) list)
   \<and> (\<forall>c c'. c \<noteq> c' \<longrightarrow> set (groupByCategory list c) \<inter> set (groupByCategory list c') = {})
   \<and> (\<Union>c\<in>set CATEGORIES. set (groupByCategory list c)) = set list
   \<and> mset (concat (map (groupByCategory list) CATEGORIES)) = mset list
   \<and> length CATEGORIES = 5 \<and> distinct CATEGORIES \<and> set CATEGORIES = UNIV"
proof (intro conjI allI impI)
  fix c
  show "groupByCategory list c = filter (\<lambda>t. category t = c) list"
    by (rule groupByCategory_filter)
next
  fix c c' :: Category
  assume "c \<noteq> c'"
  then show "set (groupByCategory list c) \<inter> set (groupByCategory list c') = {}"
    by (auto simp: groupByCategory_filter)
next
  show "(\<Union>c\<in>set CATEGORIES. set (groupByCategory list c)) = set list"
    by (auto simp: groupByCategory_filter CATEGORIES_all)
next
  have "map (groupByCategory list) CATEGORIES
          = map (\<lambda>c. filter (\<lambda>t. category t = c) list) CATEGORIES"
    by (simp add: groupByCategory_filter)
  then show "mset (concat (map (groupByCategory list) CATEGORIES)) = mset list"
    by (simp only: mset_category_filters)
next
  show "length CATEGORIES = 5" by (simp add: CATEGORIES_def)
next
  show "distinct CATEGORIES" by (simp add: CATEGORIES_def)
next
  show "set CATEGORIES = UNIV" by (rule CATEGORIES_all)
qed

theorem grouping_partitions_by_category_witness:
  "Family \<noteq> Business
   \<and> set (groupByCategory (filtered exampleStore) Family)
       \<inter> set (groupByCategory (filtered exampleStore) Business) = {}
   \<and> mset (concat (map (groupByCategory (filtered exampleStore)) CATEGORIES))
       = mset (filtered exampleStore)"
proof -
  have n: "Family \<noteq> Business" by simp
  from grouping_partitions_by_category [of "filtered exampleStore"] n show ?thesis by blast
qed

lemma chipCount_metrics:
  "chipCount (metrics h st) c = length (filter (\<lambda>t. category t = c) (tasks st))"
  by (cases c) (simp_all add: chipCount_def metrics_def CATEGORIES_def)

text \<open>
  C10. The metrics: the total is the length of the task list and equals the sum of the
  five per-category counts, each of which is the number of tasks of that category.
  The category of a task is one of the five by its type.
\<close>

theorem metrics_counts_sum_to_total:
  "total (metrics h st) = length (tasks st)
   \<and> total (metrics h st) = (\<Sum>c\<leftarrow>CATEGORIES. chipCount (metrics h st) c)
   \<and> (\<forall>c. counts (metrics h st) c = Some (length (filter (\<lambda>t. category t = c) (tasks st))))"
proof (intro conjI allI)
  show "total (metrics h st) = length (tasks st)" by (simp add: metrics_def)
next
  have "(\<Sum>c\<leftarrow>CATEGORIES. chipCount (metrics h st) c) = length (tasks st)"
    by (simp only: chipCount_metrics length_category_filters)
  then show "total (metrics h st) = (\<Sum>c\<leftarrow>CATEGORIES. chipCount (metrics h st) c)"
    by (simp add: metrics_def)
next
  fix c
  show "counts (metrics h st) c = Some (length (filter (\<lambda>t. category t = c) (tasks st)))"
    by (cases c) (simp_all add: metrics_def CATEGORIES_def)
qed

section \<open>Properties of the sort by due date\<close>









section \<open>Properties of the date helpers and the calendar\<close>

lemma msPerDay_pos: "0 < msPerDay"
  by (simp add: msPerDay_def)

lemma div_shift: "(a + k * msPerDay) div msPerDay = a div msPerDay + k"
  using msPerDay_pos by simp

lemma mult_le_iff_le_div:
  assumes "0 < (D::int)"
  shows "(x * D \<le> t) = (x \<le> t div D)"
proof
  assume "x * D \<le> t"
  then have "(x * D) div D \<le> t div D" using assms by (rule zdiv_mono1)
  then show "x \<le> t div D" using assms by simp
next
  assume "x \<le> t div D"
  then have "x * D \<le> (t div D) * D" using assms by (simp add: mult_right_mono)
  also have "\<dots> \<le> t"
  proof -
    have "t = (t div D) * D + t mod D" by simp
    moreover have "0 \<le> t mod D" using assms by simp
    ultimately show ?thesis by linarith
  qed
  finally show "x * D \<le> t" .
qed

lemma localDay_plusDays: "localDay h (plusDays t n) = localDay h t + n"
proof -
  have "plusDays t n + utcOffset h = (t + utcOffset h) + n * msPerDay"
    by (simp add: plusDays_def)
  then show ?thesis unfolding localDay_def by (simp only: div_shift)
qed

lemma getDay_startOfWeek: "getDay h (startOfWeek h t 0) = 0"
proof -
  have d: "(getDay h t + 7 - 0) mod 7 = getDay h t" by (simp add: getDay_def)
  have "getDay h (startOfWeek h t 0) = (localDay h t - getDay h t + 4) mod 7"
    unfolding startOfWeek_def Let_def addDays_def d
    by (simp add: getDay_def [of h "plusDays t (- getDay h t)"] localDay_plusDays)
  also have "\<dots> = 0" unfolding getDay_def by presburger
  finally show ?thesis .
qed

lemma startOfWeek_bounds:
  "startOfWeek h t 0 \<le> t \<and> t < startOfWeek h t 0 + 7 * msPerDay"
proof -
  have d: "(getDay h t + 7 - 0) mod 7 = getDay h t" by (simp add: getDay_def)
  have r: "0 \<le> getDay h t \<and> getDay h t < 7" by (simp add: getDay_def)
  have e: "startOfWeek h t 0 = t - getDay h t * msPerDay"
    unfolding startOfWeek_def Let_def addDays_def d by (simp add: plusDays_def)
  have "0 \<le> getDay h t * msPerDay" using r msPerDay_pos by simp
  moreover have "0 < (7 - getDay h t) * msPerDay" using r msPerDay_pos by simp
  then have "getDay h t * msPerDay < 7 * msPerDay" by (simp add: algebra_simps)
  ultimately show ?thesis unfolding e by linarith
qed

lemma calendarMatrix_grid:
  "length (calendarMatrix h st) = 42
   \<and> (\<forall>i<42. calendarMatrix h st ! i = calendarMatrix h st ! 0 + int i * msPerDay)
   \<and> (\<forall>i<42. localDay h (calendarMatrix h st ! i) = localDay h (calendarMatrix h st ! 0) + int i)
   \<and> getDay h (calendarMatrix h st ! 0) = 0
   \<and> calendarMatrix h st ! 0 \<le> startOfMonth h (calendarCursor st)
   \<and> startOfMonth h (calendarCursor st) < calendarMatrix h st ! 0 + 7 * msPerDay"
proof -
  let ?g = "startOfWeek h (startOfMonth h (calendarCursor st)) 0"
  have m: "calendarMatrix h st = map (\<lambda>i. plusDays ?g (int i)) [0..<42]"
    by (simp add: calendarMatrix_def addDays_def)
  have n: "calendarMatrix h st ! i = plusDays ?g (int i)" if "i < 42" for i
    unfolding m using that by (simp del: upt_Suc)
  have z: "calendarMatrix h st ! 0 = ?g" using n [of 0] by (simp add: plusDays_def)
  have a: "length (calendarMatrix h st) = 42" unfolding m by simp
  have b: "\<forall>i<42. calendarMatrix h st ! i = calendarMatrix h st ! 0 + int i * msPerDay"
    unfolding z using n by (simp add: plusDays_def)
  have c: "\<forall>i<42. localDay h (calendarMatrix h st ! i) = localDay h (calendarMatrix h st ! 0) + int i"
    unfolding z using n by (simp add: localDay_plusDays)
  have d: "getDay h (calendarMatrix h st ! 0) = 0" unfolding z by (rule getDay_startOfWeek)
  have e: "calendarMatrix h st ! 0 \<le> startOfMonth h (calendarCursor st)"
    unfolding z using startOfWeek_bounds by blast
  have f: "startOfMonth h (calendarCursor st) < calendarMatrix h st ! 0 + 7 * msPerDay"
    unfolding z using startOfWeek_bounds by blast
  from a b c d e f show ?thesis by (intro conjI)
qed

lemma startOfLocalDay_utc:
  assumes "utcOffset h = 0"
  shows "(startOfLocalDay h t \<le> d * msPerDay) = (localDay h t \<le> d)"
proof -
  have "(localDay h t * msPerDay \<le> d * msPerDay) = (localDay h t \<le> d)"
    using msPerDay_pos by simp
  then show ?thesis using assms by (simp add: startOfLocalDay_def)
qed

lemma le_plusDays_utc:
  assumes "utcOffset h = 0"
  shows "(d * msPerDay \<le> plusDays t n) = (d \<le> localDay h t + n)"
proof -
  have "(d * msPerDay \<le> t + n * msPerDay) = ((d - n) * msPerDay \<le> t)"
    by (simp add: algebra_simps)
  also have "\<dots> = (d - n \<le> t div msPerDay)"
    by (rule mult_le_iff_le_div [OF msPerDay_pos])
  also have "\<dots> = (d \<le> localDay h t + n)" using assms by (simp add: localDay_def) linarith
  finally show ?thesis by (simp add: plusDays_def)
qed

lemma isDueWithinDays_utc:
  assumes "utcOffset h = 0"
  shows "isDueWithinDays h dateISO days =
           (\<exists>s d. dateISO = Some s \<and> s \<noteq> [] \<and> parseISODate s = Some d
                  \<and> localDay h (now h) \<le> d \<and> d \<le> localDay h (now h) + days)"
proof (cases dateISO)
  case None
  then show ?thesis by (simp add: isDueWithinDays_def)
next
  case (Some s)
  show ?thesis
  proof (cases "s = []")
    case True
    with Some show ?thesis by (simp add: isDueWithinDays_def)
  next
    case False
    with Some show ?thesis
      by (cases "parseISODate s")
         (simp_all add: isDueWithinDays_def Let_def startOfLocalDay_utc [OF assms]
            le_plusDays_utc [OF assms])
  qed
qed

text \<open>
  C1. With the host's time zone at UTC the function returns true exactly when the due
  date is a date from today to today plus \<open>days\<close> (lemma \<open>isDueWithinDays_utc\<close>). On a
  host five hours behind UTC, at local noon of 2024-06-01, the due date 2024-06-01 is
  today's date, and the function with a window of 3 days returns false: the due date is
  read as midnight UTC, which lies before local midnight of today.
\<close>

theorem isDueWithinDays_due_today_west_of_utc:
  "isoDateOfDay (localDay hostWest (now hostWest)) = ''2024-06-01''
   \<and> localDay hostWest (now hostWest) = 19875
   \<and> parseISODate ''2024-06-01'' = Some 19875
   \<and> isDueWithinDays hostWest (Some ''2024-06-01'') 3 = False"
  by code_simp


lemma startOfMonth_midnight:
  "\<exists>L. startOfMonth h t = L * msPerDay - utcOffset h"
  unfolding startOfMonth_def newDateYMD_def Let_def by blast

lemma cell_midnight:
  assumes "i < 42"
  shows "\<exists>L. calendarMatrix h st ! i = L * msPerDay - utcOffset h"
proof -
  from startOfMonth_midnight obtain L where
    L: "startOfMonth h (calendarCursor st) = L * msPerDay - utcOffset h" by blast
  let ?k = "(getDay h (startOfMonth h (calendarCursor st)) + 7 - 0) mod 7"
  have "calendarMatrix h st ! i = plusDays (plusDays (startOfMonth h (calendarCursor st)) (- ?k)) (int i)"
    using assms by (simp add: calendarMatrix_def addDays_def startOfWeek_def Let_def del: upt_Suc)
  also have "\<dots> = (L - ?k + int i) * msPerDay - utcOffset h"
    unfolding L by (simp add: plusDays_def algebra_simps)
  finally show ?thesis by blast
qed

lemma midnight_days:
  assumes "t = L * msPerDay - utcOffset h"
  shows "localDay h t = L"
    and "- msPerDay < utcOffset h \<Longrightarrow> utcOffset h \<le> 0 \<Longrightarrow> t div msPerDay = L"
    and "0 < utcOffset h \<Longrightarrow> utcOffset h \<le> msPerDay \<Longrightarrow> t div msPerDay = L - 1"
proof -
  show "localDay h t = L" using assms msPerDay_pos by (simp add: localDay_def)
next
  assume a: "- msPerDay < utcOffset h" "utcOffset h \<le> 0"
  have "t = - utcOffset h + L * msPerDay" using assms by simp
  then have "t div msPerDay = (- utcOffset h) div msPerDay + L" by (simp only: div_shift)
  moreover have "(- utcOffset h) div msPerDay = 0" using a by simp
  ultimately show "t div msPerDay = L" by simp
next
  assume a: "0 < utcOffset h" "utcOffset h \<le> msPerDay"
  have "t = (msPerDay - utcOffset h) + (L - 1) * msPerDay" using assms by (simp add: algebra_simps)
  then have "t div msPerDay = (msPerDay - utcOffset h) div msPerDay + (L - 1)"
    by (simp only: div_shift)
  moreover have "(msPerDay - utcOffset h) div msPerDay = 0"
    using a by simp
  ultimately show "t div msPerDay = L - 1" by simp
qed

lemma cell_iso_date:
  assumes "i < 42"
  shows "(- msPerDay < utcOffset h \<and> utcOffset h \<le> 0 \<longrightarrow>
            toISODate (calendarMatrix h st ! i) = isoDateOfDay (localDay h (calendarMatrix h st ! i)))
       \<and> (0 < utcOffset h \<and> utcOffset h \<le> msPerDay \<longrightarrow>
            toISODate (calendarMatrix h st ! i)
              = isoDateOfDay (localDay h (calendarMatrix h st ! i) - 1))"
proof -
  from cell_midnight [OF assms] obtain L where
    L: "calendarMatrix h st ! i = L * msPerDay - utcOffset h" by blast
  show ?thesis using midnight_days [OF L] by (simp add: toISODate_def)
qed

lemma cell6: "calendarMatrix hostEast exampleStore ! 6 = 1717196400000"
  by code_simp

lemma cell7: "calendarMatrix hostEast exampleStore ! 7 = 1717282800000"
  by code_simp

text \<open>
  C5. The grid has 42 consecutive days and starts on the Sunday on or before the first
  of the month (lemma \<open>calendarMatrix_grid\<close>). On a host one hour ahead of UTC the cell
  of the local day 2024-06-01 is looked up under the date 2024-05-31, the UTC date of
  its local midnight: the task due on 2024-06-01 and the task with a next step due on
  2024-06-01 are missing from that cell and appear in the cell of 2024-06-02.
\<close>

theorem tasksOn_cell_east_of_utc:
  "isoDateOfDay (localDay hostEast (calendarMatrix hostEast exampleStore ! 6)) = ''2024-06-01''
   \<and> toISODate (calendarMatrix hostEast exampleStore ! 6) = ''2024-05-31''
   \<and> dueDate (tasks exampleStore ! 2) = Some ''2024-06-01''
   \<and> tasksOn exampleStore (calendarMatrix hostEast exampleStore ! 6) = []
   \<and> tasksOn exampleStore (calendarMatrix hostEast exampleStore ! 7)
        = [tasks exampleStore ! 1, tasks exampleStore ! 2]"
  unfolding cell6 cell7 by code_simp

section \<open>Properties of export and import\<close>

subsection \<open>Strings\<close>







subsection \<open>Values\<close>














lemma ser_length_pos: "2 \<le> length (ser ind v)"
proof (cases v)
  case (JArray xs)
  then show ?thesis by (cases xs) simp_all
next
  case (JObject ms)
  then show ?thesis by (cases ms) simp_all
qed (simp_all add: quoteJSONString_def)




subsection \<open>Tasks\<close>








end
